theory Spec2Isabelle
  imports Complex_Main
begin

section \<open>Python values shared by the model\<close>

text \<open>
  Every fault the program can observe is a Python \<open>Exception\<close> carrying a message: the
  failures of the browser driver, of the file system and of the spreadsheet library, and
  the exceptions the program raises itself. A call that may fail has a result of type
  \<open>exn + 'a\<close>, with \<open>Inl\<close> the exception. Signals of the interpreter that are not
  \<open>Exception\<close>s (\<open>KeyboardInterrupt\<close>, \<open>SystemExit\<close>) are outside the model.
\<close>

datatype exn = Exception string

type_synonym path = string

text \<open>
  Python's \<open>xs[i:j]\<close> on a list: a negative bound counts from the end, and both bounds
  are clamped to the list. \<open>slice_bound\<close> is that clamping.
\<close>

definition slice_bound :: "nat \<Rightarrow> int \<Rightarrow> nat" where
  "slice_bound n i = (if i < 0 then nat (max 0 (int n + i)) else min n (nat i))"

definition py_slice :: "'a list \<Rightarrow> int \<Rightarrow> int \<Rightarrow> 'a list" where
  "py_slice xs i j =
     (let lo = slice_bound (length xs) i; hi = slice_bound (length xs) j
      in take (hi - lo) (drop lo xs))"

text \<open>\<open>list.index\<close>: the position of the first occurrence, \<open>ValueError\<close> when there is none.\<close>

fun list_index :: "'a list \<Rightarrow> 'a \<Rightarrow> exn + nat" where
  "list_index [] v = Inl (Exception ''ValueError'')"
| "list_index (x # xs) v =
     (if x = v then Inr 0
      else case list_index xs v of Inl e \<Rightarrow> Inl e | Inr i \<Rightarrow> Inr (Suc i))"

text \<open>\<open>int(x)\<close> on a float truncates towards zero.\<close>

definition py_int :: "real \<Rightarrow> int" where
  "py_int x = (if 0 \<le> x then \<lfloor>x\<rfloor> else \<lceil>x\<rceil>)"

section \<open>Batch planner: \<open>get_contracts_to_process\<close>\<close>

text \<open>
  The spreadsheet as the function sees it: what \<open>input_file.exists()\<close> gives, and what
  \<open>pd.read_excel\<close> gives (a table from column names to cells, or an exception).
  \<open>Path.exists()\<close> answers \<open>False\<close> for a path that is not there and lets any other
  \<open>OSError\<close> through (a \<open>PermissionError\<close>, say), so it may raise as well.
  \<open>astype_str\<close> is the conversion \<open>astype(str)\<close> of a cell.
\<close>

type_synonym 'c dataframe = "(string \<times> 'c list) list"

record 'c input_file =
  file_exists :: "exn + bool"
  read_excel :: "exn + 'c dataframe"

text \<open>
  The body of the \<open>try\<close> block (lines 46 to 57). The empty string is false in Python,
  so \<open>not last_processed_id\<close> holds for \<open>None\<close> and for it.
\<close>

definition get_contracts_try ::
  "('c \<Rightarrow> string) \<Rightarrow> string option \<Rightarrow> 'c input_file \<Rightarrow> int \<Rightarrow> exn + string list" where
  "get_contracts_try astype_str last_processed_id input_file quantity =
     (case read_excel input_file of
        Inl e \<Rightarrow> Inl e
      | Inr df \<Rightarrow>
          (case map_of df ''Contract_ID'' of
             None \<Rightarrow> Inr []
           | Some column \<Rightarrow>
               (let contract_ids = map astype_str column in
                if last_processed_id = None \<or> last_processed_id = Some ''''
                   \<or> the last_processed_id \<notin> set contract_ids
                then Inr (py_slice contract_ids 0 quantity)
                else
                  (case list_index contract_ids (the last_processed_id) of
                     Inl e \<Rightarrow> Inl e
                   | Inr last_index \<Rightarrow>
                       (let next_index = int last_index + 1
                        in Inr (py_slice contract_ids next_index (next_index + quantity)))))))"

definition get_contracts_to_process ::
  "('c \<Rightarrow> string) \<Rightarrow> string option \<Rightarrow> 'c input_file \<Rightarrow> int \<Rightarrow> exn + string list" where
  "get_contracts_to_process astype_str last_processed_id input_file quantity =
     (case file_exists input_file of
        Inl e \<Rightarrow> Inl e
      | Inr False \<Rightarrow> Inr []
      | Inr True \<Rightarrow>
          (case get_contracts_try astype_str last_processed_id input_file quantity of
             Inl e \<Rightarrow> Inr []
           | Inr ids \<Rightarrow> Inr ids))"

text \<open>A spreadsheet that exists, loads, and holds the given identifiers.\<close>

definition sheet_of :: "string list \<Rightarrow> string input_file" where
  "sheet_of full_ids =
     \<lparr>file_exists = Inr True, read_excel = Inr [(''Contract_ID'', full_ids)]\<rparr>"

section \<open>Resume tracker: \<open>get_last_contract_id\<close>\<close>

text \<open>
  The output root as the function inspects it. \<open>root_exists\<close> is
  \<open>EXTRACTED_CONTRACTS_DIR.exists()\<close>, which may raise as said above; \<open>iterdir\<close>
  lists the entries or fails. For each entry, \<open>is_dir\<close> is \<open>d.is_dir()\<close> and
  \<open>getmtime\<close> is \<open>os.path.getmtime(d)\<close>; each may fail. \<open>scandir\<close> is what listing
  the entry gives to \<open>d.glob("*")\<close>: the listing, with at least one entry or none, a
  refused access (\<open>PermissionError\<close>), or another error.
\<close>

datatype scan = Listed bool | Refused | Failed exn

record dir_entry =
  entry_name :: string
  is_dir :: "exn + bool"
  scandir :: scan
  getmtime :: "exn + real"

text \<open>
  \<open>any(d.glob("*"))\<close>. \<open>pathlib\<close>'s \<open>glob\<close> lists the directory and yields every entry,
  the pattern matching all names; a \<open>PermissionError\<close> of the listing is swallowed,
  the generator ending with nothing yielded, and any other error propagates.
\<close>

definition glob_any :: "dir_entry \<Rightarrow> exn + bool" where
  "glob_any d =
     (case scandir d of
        Listed b \<Rightarrow> Inr b
      | Refused \<Rightarrow> Inr False
      | Failed e \<Rightarrow> Inl e)"

record output_root =
  root_exists :: "exn + bool"
  iterdir :: "exn + dir_entry list"

text \<open>
  The list comprehension of lines 20 to 23. \<open>and\<close> is lazy: \<open>glob\<close> runs only on an
  entry that is a directory. The first failure ends the comprehension.
\<close>

fun folders_of :: "dir_entry list \<Rightarrow> exn + dir_entry list" where
  "folders_of [] = Inr []"
| "folders_of (d # ds) =
     (case is_dir d of
        Inl e \<Rightarrow> Inl e
      | Inr False \<Rightarrow> folders_of ds
      | Inr True \<Rightarrow>
          (case glob_any d of
             Inl e \<Rightarrow> Inl e
           | Inr b \<Rightarrow>
               (case folders_of ds of
                  Inl e \<Rightarrow> Inl e
                | Inr fs \<Rightarrow> Inr (if b then d # fs else fs))))"

text \<open>
  \<open>max(folders, key=...)\<close>: the key of every item is computed, in order, and a later
  item replaces the current maximum only when its key is strictly greater.
\<close>

fun max_loop :: "dir_entry \<Rightarrow> real \<Rightarrow> dir_entry list \<Rightarrow> exn + dir_entry" where
  "max_loop maxitem maxval [] = Inr maxitem"
| "max_loop maxitem maxval (x # xs) =
     (case getmtime x of
        Inl e \<Rightarrow> Inl e
      | Inr v \<Rightarrow> if maxval < v then max_loop x v xs else max_loop maxitem maxval xs)"

definition max_by_getmtime :: "dir_entry list \<Rightarrow> exn + dir_entry" where
  "max_by_getmtime folders =
     (case folders of
        [] \<Rightarrow> Inl (Exception ''ValueError'')
      | x # xs \<Rightarrow> (case getmtime x of Inl e \<Rightarrow> Inl e | Inr v \<Rightarrow> max_loop x v xs))"

text \<open>The body of the \<open>try\<close> block (lines 20 to 29).\<close>

definition get_last_try :: "output_root \<Rightarrow> exn + string option" where
  "get_last_try out_dir =
     (case iterdir out_dir of
        Inl e \<Rightarrow> Inl e
      | Inr entries \<Rightarrow>
          (case folders_of entries of
             Inl e \<Rightarrow> Inl e
           | Inr folders \<Rightarrow>
               if folders = [] then Inr None
               else
                 (case max_by_getmtime folders of
                    Inl e \<Rightarrow> Inl e
                  | Inr last_folder \<Rightarrow> Inr (Some (entry_name last_folder)))))"

text \<open>The function: the existence check of line 16 stands before the \<open>try\<close> block.\<close>

definition get_last_contract_id :: "output_root \<Rightarrow> exn + string option" where
  "get_last_contract_id out_dir =
     (case root_exists out_dir of
        Inl e \<Rightarrow> Inl e
      | Inr False \<Rightarrow> Inr None
      | Inr True \<Rightarrow> (case get_last_try out_dir of Inl e \<Rightarrow> Inr None | Inr r \<Rightarrow> Inr r))"



section \<open>Session gateway\<close>

text \<open>
  The browser session, the clock and the disk are a world \<open>'w\<close> that every call may
  change. A call of the driver takes the world and gives its result, or the exception
  it raised, with the new world. The record lists what the modelled functions call:
  \<^item> \<open>time_time\<close>: \<open>time.time()\<close>;
  \<^item> \<open>page_search\<close>: lines 113 to 119 of \<open>search_contract\<close>, a straight sequence of
    driver calls;
  \<^item> \<open>open_contract\<close> and \<open>access_contract_documents\<close>: the two gateway steps whose
    outcome is taken as given, a value or (more than the source allows) an exception;
  \<^item> \<open>page_goto_home\<close>: lines 100 to 102 of \<open>navigate_to_homepage\<close>;
  \<^item> \<open>wait_for_download_page\<close> (line 68), \<open>checkbox_click\<close> (line 73),
    \<open>checkbox_input_click\<close> (line 75), \<open>expect_download\<close> (lines 76 to 84, giving the
    suggested file name), \<open>mkdir\<close> (line 86), \<open>save_as\<close> (line 89) and
    \<open>no_documents_count\<close> (line 95) of \<open>download_contract_documents\<close>;
  \<^item> \<open>extracted_contracts_dir\<close> and \<open>joinpath\<close>: the configured output root and
    \<open>pathlib\<close>'s \<open>/\<close>.
\<close>

record 'w gateway =
  time_time :: "'w \<Rightarrow> real"
  page_search :: "string \<Rightarrow> 'w \<Rightarrow> (exn + unit) \<times> 'w"
  open_contract :: "string \<Rightarrow> 'w \<Rightarrow> (exn + string) \<times> 'w"
  access_contract_documents :: "string \<Rightarrow> 'w \<Rightarrow> (exn + bool) \<times> 'w"
  page_goto_home :: "string \<Rightarrow> 'w \<Rightarrow> (exn + unit) \<times> 'w"
  wait_for_download_page :: "'w \<Rightarrow> (exn + unit) \<times> 'w"
  checkbox_click :: "'w \<Rightarrow> (exn + unit) \<times> 'w"
  checkbox_input_click :: "'w \<Rightarrow> (exn + unit) \<times> 'w"
  expect_download :: "'w \<Rightarrow> (exn + string) \<times> 'w"
  mkdir :: "path \<Rightarrow> 'w \<Rightarrow> (exn + unit) \<times> 'w"
  save_as :: "path \<Rightarrow> 'w \<Rightarrow> (exn + unit) \<times> 'w"
  no_documents_count :: "'w \<Rightarrow> (exn + nat) \<times> 'w"
  extracted_contracts_dir :: path
  joinpath :: "path \<Rightarrow> string \<Rightarrow> path"

text \<open>Sequencing of calls that may raise: the first exception ends the sequence.\<close>

definition and_then ::
  "('w \<Rightarrow> (exn + 'a) \<times> 'w) \<Rightarrow> ('a \<Rightarrow> 'w \<Rightarrow> (exn + 'b) \<times> 'w) \<Rightarrow> 'w \<Rightarrow> (exn + 'b) \<times> 'w" where
  "and_then m f w = (case m w of (Inl e, w') \<Rightarrow> (Inl e, w') | (Inr x, w') \<Rightarrow> f x w')"

text \<open>\<open>try: m  except: h\<close>, the handler running in the world the failure left.\<close>

definition try_except ::
  "('w \<Rightarrow> (exn + 'a) \<times> 'w) \<Rightarrow> (exn \<Rightarrow> 'w \<Rightarrow> (exn + 'a) \<times> 'w) \<Rightarrow> 'w \<Rightarrow> (exn + 'a) \<times> 'w" where
  "try_except m h w = (case m w of (Inl e, w') \<Rightarrow> h e w' | (Inr x, w') \<Rightarrow> (Inr x, w'))"

definition search_contract :: "'w gateway \<Rightarrow> string \<Rightarrow> 'w \<Rightarrow> bool \<times> 'w" where
  "search_contract g contract_id w =
     (case page_search g contract_id w of
        (Inl e, w') \<Rightarrow> (False, w')
      | (Inr u, w') \<Rightarrow> (True, w'))"

definition navigate_to_homepage :: "'w gateway \<Rightarrow> string \<Rightarrow> 'w \<Rightarrow> bool \<times> 'w" where
  "navigate_to_homepage g url w =
     (case page_goto_home g url w of
        (Inl e, w') \<Rightarrow> (False, w')
      | (Inr u, w') \<Rightarrow> (True, w'))"

subsection \<open>\<open>download_contract_documents\<close>\<close>

text \<open>The body of the \<open>try\<close> block (lines 68 to 91).\<close>

definition download_try :: "'w gateway \<Rightarrow> string \<Rightarrow> 'w \<Rightarrow> (exn + string \<times> path option) \<times> 'w" where
  "download_try g contract_id =
     and_then (wait_for_download_page g) (\<lambda>_.
     and_then (try_except (checkbox_click g) (\<lambda>_. checkbox_input_click g)) (\<lambda>_.
     and_then (expect_download g) (\<lambda>suggested_filename.
       let contract_dir = joinpath g (extracted_contracts_dir g) contract_id in
       and_then (mkdir g contract_dir) (\<lambda>_.
         let zip_path = joinpath g contract_dir suggested_filename in
         and_then (save_as g zip_path) (\<lambda>_ w.
           (Inr (''DOWNLOADED'', Some zip_path), w))))))"

text \<open>
  The handler (lines 93 to 98) probes the page for the no-documents message and gives
  \<open>NO_FILES\<close> on both branches; the probe itself is outside any \<open>try\<close>.
\<close>

definition download_contract_documents ::
  "'w gateway \<Rightarrow> string \<Rightarrow> 'w \<Rightarrow> (exn + string \<times> path option) \<times> 'w" where
  "download_contract_documents g contract_id =
     try_except (download_try g contract_id) (\<lambda>_.
       and_then (no_documents_count g) (\<lambda>n w.
         if 0 < n then (Inr (''NO_FILES'', None), w)
         else (Inr (''NO_FILES'', None), w)))"

section \<open>Contract processor: \<open>process_contract\<close>\<close>

text \<open>
  The dictionary the processor returns, and the row the runner appends to the report:
  the same four keys, with \<open>Duration\<close> an \<open>int\<close> in the first and a float in the second.
\<close>

record 'd outcome =
  Contract_ID :: string
  Status :: string
  Duration :: 'd
  File_Path :: "string option"

text \<open>The gateway steps \<open>process_contract\<close> calls, logged in the order it calls them.\<close>

datatype step = SEARCH | OPEN | ACCESS_DOCUMENTS | DOWNLOAD | NAVIGATE_HOME

text \<open>How the body of the \<open>try\<close> statement ended.\<close>

datatype ending = Completed | Returned "int outcome" | Raised exn

text \<open>
  The body of the \<open>try\<close> statement (lines 187 to 213). It gives how it ended, the values
  of the local variables \<open>status\<close> and \<open>file_path\<close> at that point, the steps called and
  the world. \<open>file_path\<close> is assigned from the pair \<open>download_contract_documents\<close>
  returns, before the status is looked at.
\<close>

definition process_contract_try ::
  "'w gateway \<Rightarrow> string \<Rightarrow> real \<Rightarrow> 'w \<Rightarrow> ending \<times> string \<times> path option \<times> step list \<times> 'w" where
  "process_contract_try g contract_id start_time w0 =
     (case search_contract g contract_id w0 of (found, w1) \<Rightarrow>
      if \<not> found then
        (Raised (Exception ''Falha na pesquisa do contrato''), ''SEARCH_FAILED'', None,
         [SEARCH], w1)
      else
        (case open_contract g contract_id w1 of
           (Inl e, w2) \<Rightarrow> (Raised e, ''PROCESSED'', None, [SEARCH, OPEN], w2)
         | (Inr open_status, w2) \<Rightarrow>
             if open_status = ''NOT_FOUND'' then
               (Returned \<lparr>Contract_ID = contract_id, Status = ''NOT_FOUND'',
                           Duration = py_int (time_time g w2 - start_time), File_Path = None\<rparr>,
                ''NOT_FOUND'', None, [SEARCH, OPEN], w2)
             else if open_status \<noteq> ''OPENED'' then
               (Raised (Exception ''Falha ao abrir o contrato''), ''OPEN_FAILED'', None,
                [SEARCH, OPEN], w2)
             else
               (case access_contract_documents g contract_id w2 of
                  (Inl e, w3) \<Rightarrow>
                    (Raised e, ''PROCESSED'', None, [SEARCH, OPEN, ACCESS_DOCUMENTS], w3)
                | (Inr accessed, w3) \<Rightarrow>
                    if \<not> accessed then
                      (Raised (Exception ''Falha ao acessar documentos''),
                       ''DOCUMENTS_ACCESS_FAILED'', None,
                       [SEARCH, OPEN, ACCESS_DOCUMENTS], w3)
                    else
                      (case download_contract_documents g contract_id w3 of
                         (Inl e, w4) \<Rightarrow>
                           (Raised e, ''PROCESSED'', None,
                            [SEARCH, OPEN, ACCESS_DOCUMENTS, DOWNLOAD], w4)
                       | (Inr (download_status, file_path), w4) \<Rightarrow>
                           if download_status = ''NO_FILES'' then
                             (Completed, ''NO_FILES'', file_path,
                              [SEARCH, OPEN, ACCESS_DOCUMENTS, DOWNLOAD], w4)
                           else if download_status \<noteq> ''DOWNLOADED'' then
                             (Raised (Exception ''Falha no download dos documentos''),
                              ''DOWNLOAD_FAILED'', file_path,
                              [SEARCH, OPEN, ACCESS_DOCUMENTS, DOWNLOAD], w4)
                           else
                             (Completed, ''PROCESSED'', file_path,
                              [SEARCH, OPEN, ACCESS_DOCUMENTS, DOWNLOAD], w4)))))"

text \<open>
  The ways the body can end: completed with a download, completed with no files,
  returned at line 194, or raised, by line 189, 202 or 206 or by a gateway step.
\<close>

definition try_ending :: "ending \<Rightarrow> string \<Rightarrow> path option \<Rightarrow> bool" where
  "try_ending ended st fp =
     ((ended = Completed \<and> st = ''PROCESSED'' \<and> fp \<noteq> None)
      \<or> (ended = Completed \<and> st = ''NO_FILES'' \<and> fp = None)
      \<or> (\<exists>d. ended = Returned d \<and> st = ''NOT_FOUND'' \<and> fp = None)
      \<or> (\<exists>e. ended = Raised e \<and> fp = None
            \<and> (st = ''SEARCH_FAILED'' \<or> st = ''OPEN_FAILED''
                \<or> st = ''DOCUMENTS_ACCESS_FAILED'' \<or> st = ''PROCESSED'')))"

text \<open>
  The whole function. \<open>except Exception\<close> prefixes the status when the body raised. The
  \<open>finally\<close> block runs however the body ended, also after the \<open>return\<close> of line 194, and
  its own \<open>return\<close> replaces whatever was pending: it reads the clock, then calls
  \<open>navigate_to_homepage\<close>, then builds the dictionary. A \<open>Path\<close> is always true, so
  \<open>File_Path\<close> is \<open>str(file_path)\<close> exactly when \<open>file_path\<close> is not \<open>None\<close>.
\<close>

definition process_contract ::
  "'w gateway \<Rightarrow> string \<Rightarrow> string \<Rightarrow> 'w \<Rightarrow> (exn + int outcome) \<times> step list \<times> 'w" where
  "process_contract g contract_id ariba_url w0 =
     (let start_time = time_time g w0 in
      case process_contract_try g contract_id start_time w0 of
        (ended, status0, file_path, steps, w1) \<Rightarrow>
          (let status = (case ended of Raised e \<Rightarrow> ''ERROR_'' @ status0 | _ \<Rightarrow> status0);
               duration = py_int (time_time g w1 - start_time)
           in case navigate_to_homepage g ariba_url w1 of
                (home, w2) \<Rightarrow>
                  (Inr \<lparr>Contract_ID = contract_id, Status = status, Duration = duration,
                        File_Path = (case file_path of None \<Rightarrow> None | Some p \<Rightarrow> Some p)\<rparr>,
                   steps @ [NAVIGATE_HOME], w2)))"

text \<open>The statuses the function can return.\<close>

definition final_statuses :: "string list" where
  "final_statuses =
     [''PROCESSED'', ''NO_FILES'', ''NOT_FOUND'', ''ERROR_SEARCH_FAILED'', ''ERROR_OPEN_FAILED'',
      ''ERROR_DOCUMENTS_ACCESS_FAILED'', ''ERROR_PROCESSED'']"

section \<open>Batch runner and report\<close>

text \<open>
  What the loop of \<open>main\<close> uses: the clock, the contract processor (any function from
  an identifier to a dictionary or an exception), the value of
  \<open>controller.should_stop\<close> read at the top of iteration \<open>i\<close> (the listener thread
  writes it, so it is an input), \<open>round(x, 2)\<close> on floats, \<open>login\<close>, and for
  \<open>save_report\<close> the timestamped file name and \<open>DataFrame.to_excel\<close>. Console output
  is not modelled.
\<close>

record 'w runner =
  clock :: "'w \<Rightarrow> real"
  process :: "string \<Rightarrow> 'w \<Rightarrow> (exn + int outcome) \<times> 'w"
  should_stop :: "nat \<Rightarrow> bool"
  round_2 :: "real \<Rightarrow> real"
  login :: "'w \<Rightarrow> bool \<times> 'w"
  report_file :: "'w \<Rightarrow> path"
  to_excel :: "real outcome list \<Rightarrow> path \<Rightarrow> 'w \<Rightarrow> (exn + unit) \<times> 'w"

text \<open>
  The \<open>for\<close> loop (lines 194 to 231), \<open>i\<close> counting from 1 as \<open>enumerate\<close> does. An
  exception of the processor gives the \<open>ERROR\<close> row and the loop goes on.
\<close>

fun main_loop ::
  "'w runner \<Rightarrow> nat \<Rightarrow> string list \<Rightarrow> real outcome list \<Rightarrow> 'w \<Rightarrow> real outcome list \<times> 'w" where
  "main_loop r i [] report_data w = (report_data, w)"
| "main_loop r i (contract_id # rest) report_data w =
     (if should_stop r i then (report_data, w)
      else
        (let contract_start_time = clock r w in
         case process r contract_id w of
           (Inl e, w') \<Rightarrow>
             main_loop r (Suc i) rest
               (report_data @ [\<lparr>Contract_ID = contract_id, Status = ''ERROR'', Duration = 0,
                                 File_Path = None\<rparr>]) w'
         | (Inr result, w') \<Rightarrow>
             main_loop r (Suc i) rest
               (report_data @ [\<lparr>Contract_ID = contract_id, Status = Status result,
                                 Duration = round_2 r (clock r w' - contract_start_time),
                                 File_Path = File_Path result\<rparr>]) w'))"

text \<open>\<open>save_report\<close> of \<open>utils/file_utils.py\<close>: a failure to write is raised again.\<close>

definition save_report :: "'w runner \<Rightarrow> real outcome list \<Rightarrow> 'w \<Rightarrow> (exn + path) \<times> 'w" where
  "save_report r df w =
     (let file = report_file r w in
      case to_excel r df file w of
        (Inl (Exception msg), w') \<Rightarrow>
          (Inl (Exception (''Falha ao salvar relat'' @ [CHR 0xC3, CHR 0xB3] @ ''rio: '' @ msg)), w')
      | (Inr u, w') \<Rightarrow> (Inr file, w'))"

text \<open>
  \<open>main\<close> from the empty report of line 185 to the \<open>finally\<close> of line 237: login, the
  loop, and the report saved when it is not empty. The result is the report, what
  \<open>save_report\<close> gave (\<open>None\<close> when it was not called) and the world.
\<close>

definition main_finally ::
  "'w runner \<Rightarrow> real outcome list \<Rightarrow> 'w \<Rightarrow> real outcome list \<times> (exn + path) option \<times> 'w" where
  "main_finally r report_data w =
     (if report_data \<noteq> [] then
        (case save_report r report_data w of (saved, w') \<Rightarrow> (report_data, Some saved, w'))
      else (report_data, None, w))"

definition main_run ::
  "'w runner \<Rightarrow> string list \<Rightarrow> 'w \<Rightarrow> real outcome list \<times> (exn + path) option \<times> 'w" where
  "main_run r contract_ids w0 =
     (case login r w0 of
        (False, w1) \<Rightarrow> main_finally r [] w1
      | (True, w1) \<Rightarrow>
          (case main_loop r 1 contract_ids [] w1 of
             (report_data, w2) \<Rightarrow> main_finally r report_data w2))"

text \<open>
  \<open>generate_summary\<close>: the numbers the summary text prints. The layout of the text and
  the date are left out.
\<close>

record summary =
  total_time :: int
  processed :: int
  success_count :: int
  no_files_count :: int
  error_count :: int
  summary_path :: path

definition generate_summary :: "real \<Rightarrow> real outcome list \<Rightarrow> real \<Rightarrow> path \<Rightarrow> summary" where
  "generate_summary now report_data start_time report_path =
     (let success = int (length (filter (\<lambda>row. Status row = ''PROCESSED'') report_data));
          no_files = int (length (filter (\<lambda>row. Status row = ''NO_FILES'') report_data));
          errors = int (length report_data) - success - no_files
      in \<lparr>total_time = py_int (now - start_time), processed = int (length report_data),
          success_count = success, no_files_count = no_files, error_count = errors,
          summary_path = report_path\<rparr>)"

text \<open>The processor of the source as the runner's \<open>process\<close>.\<close>

definition process_with :: "'w gateway \<Rightarrow> string \<Rightarrow> string \<Rightarrow> 'w \<Rightarrow> (exn + int outcome) \<times> 'w" where
  "process_with g ariba_url contract_id w =
     (case process_contract g contract_id ariba_url w of (result, steps, w') \<Rightarrow> (result, w'))"

section \<open>Concrete sessions\<close>

text \<open>
  Sessions used to run the model. The world is the clock, in seconds. In \<open>gw_ok\<close> every
  call succeeds: each step of the portal takes one second, going back to the home page
  takes a hundred, and the download is saved as \<open>docs.zip\<close>. The others differ in one
  call: the search field never shows, the contract has no row, the download never
  starts.
\<close>

definition gw_ok :: "real gateway" where
  "gw_ok =
     \<lparr>time_time = (\<lambda>w. w),
      page_search = (\<lambda>contract_id w. (Inr (), w + 1)),
      open_contract = (\<lambda>contract_id w. (Inr ''OPENED'', w + 1)),
      access_contract_documents = (\<lambda>contract_id w. (Inr True, w + 1)),
      page_goto_home = (\<lambda>url w. (Inr (), w + 100)),
      wait_for_download_page = (\<lambda>w. (Inr (), w + 1)),
      checkbox_click = (\<lambda>w. (Inr (), w + 1)),
      checkbox_input_click = (\<lambda>w. (Inr (), w + 1)),
      expect_download = (\<lambda>w. (Inr ''docs.zip'', w + 1)),
      mkdir = (\<lambda>p w. (Inr (), w)),
      save_as = (\<lambda>p w. (Inr (), w + 1)),
      no_documents_count = (\<lambda>w. (Inr 0, w)),
      extracted_contracts_dir = ''out'',
      joinpath = (\<lambda>p c. p @ ''/'' @ c)\<rparr>"

definition gw_search_timeout :: "real gateway" where
  "gw_search_timeout =
     gw_ok\<lparr>page_search := (\<lambda>contract_id w. (Inl (Exception ''TimeoutError''), w + 15))\<rparr>"

definition gw_no_row :: "real gateway" where
  "gw_no_row = gw_ok\<lparr>open_contract := (\<lambda>contract_id w. (Inr ''NOT_FOUND'', w + 1))\<rparr>"

definition gw_no_download :: "real gateway" where
  "gw_no_download =
     gw_ok\<lparr>expect_download := (\<lambda>w. (Inl (Exception ''TimeoutError''), w + 60))\<rparr>"

text \<open>A contract with no attachment: the page shows the no-documents message.\<close>

definition gw_no_files :: "real gateway" where
  "gw_no_files =
     gw_ok\<lparr>checkbox_click := (\<lambda>w. (Inl (Exception ''TimeoutError''), w + 5)),
           checkbox_input_click := (\<lambda>w. (Inl (Exception ''Error''), w)),
           no_documents_count := (\<lambda>w. (Inr 1, w))\<rparr>"

text \<open>The contract cannot be opened: the driver raises inside a gateway step.\<close>

definition gw_open_raises :: "real gateway" where
  "gw_open_raises =
     gw_ok\<lparr>open_contract := (\<lambda>contract_id w. (Inl (Exception ''TargetClosedError''), w + 1))\<rparr>"

text \<open>
  Runs of the batch. In \<open>rn_ok\<close> nobody asks to stop, the processor is
  \<open>process_contract\<close> on \<open>gw_ok\<close>, and the report is written. In \<open>rn_stop\<close> the stop
  key is pressed while the second contract is processed. In \<open>rn_faulty\<close> the processor
  raises on the contract \<open>BAD\<close>.
\<close>

definition rn_ok :: "real runner" where
  "rn_ok =
     \<lparr>clock = (\<lambda>w. w),
      process = process_with gw_ok ''url'',
      should_stop = (\<lambda>i. False),
      round_2 = (\<lambda>x. x),
      login = (\<lambda>w. (True, w + 10)),
      report_file = (\<lambda>w. ''report.xlsx''),
      to_excel = (\<lambda>df file w. (Inr (), w + 1))\<rparr>"

definition rn_stop :: "real runner" where
  "rn_stop = rn_ok\<lparr>should_stop := (\<lambda>i. 3 \<le> i)\<rparr>"

definition rn_faulty :: "real runner" where
  "rn_faulty =
     rn_ok\<lparr>process := (\<lambda>contract_id w.
        if contract_id = ''BAD'' then (Inl (Exception ''KeyError''), w + 1)
        else (Inr \<lparr>Contract_ID = contract_id, Status = ''PROCESSED'', Duration = 7,
                    File_Path = Some ''docs.zip''\<rparr>, w + 7))\<rparr>"




definition out_locked :: output_root where
  "out_locked =
     \<lparr>root_exists = Inl (Exception ''PermissionError''),
      iterdir = Inl (Exception ''PermissionError'')\<rparr>"

lemma take_min_length: "take (min (length xs) n) xs = take n xs"
  by (cases "n \<le> length xs") (simp_all add: min_def)

lemma py_slice_take: "0 \<le> q \<Longrightarrow> py_slice xs 0 q = take (nat q) xs"
  by (simp add: py_slice_def slice_bound_def take_min_length)

lemma py_slice_drop_take:
  assumes "0 \<le> q"
  shows "py_slice xs (int i + 1) (int i + 1 + q) = take (nat q) (drop (Suc i) xs)"
proof -
  have lo: "slice_bound (length xs) (int i + 1) = min (length xs) (Suc i)"
    by (simp add: slice_bound_def nat_add_distrib)
  have hi: "slice_bound (length xs) (int i + 1 + q) = min (length xs) (Suc i + nat q)"
    using assms by (simp add: slice_bound_def nat_add_distrib)
  show ?thesis
  proof (cases "Suc i \<le> length xs")
    case True
    then have "take (min (length xs) (Suc i + nat q) - Suc i) (drop (Suc i) xs)
               = take (nat q) (drop (Suc i) xs)"
      by (cases "Suc i + nat q \<le> length xs") (simp_all add: min_def)
    with True show ?thesis
      by (simp add: py_slice_def lo hi min_def)
  next
    case False
    then show ?thesis
      by (simp add: py_slice_def lo hi)
  qed
qed

lemma list_index_first:
  "i < length xs \<Longrightarrow> xs ! i = m \<Longrightarrow> \<forall>j<i. xs ! j \<noteq> m \<Longrightarrow> list_index xs m = Inr i"
proof (induction xs arbitrary: i)
  case Nil
  then show ?case by simp
next
  case (Cons x xs)
  show ?case
  proof (cases i)
    case 0
    with Cons.prems show ?thesis by simp
  next
    case (Suc k)
    with Cons.prems have "x \<noteq> m" by auto
    moreover have "list_index xs m = Inr k"
    proof (rule Cons.IH)
      show "k < length xs" using Cons.prems(1) Suc by simp
      show "xs ! k = m" using Cons.prems(2) Suc by simp
      show "\<forall>j<k. xs ! j \<noteq> m"
      proof (intro allI impI)
        fix j assume "j < k"
        then have "Suc j < i" using Suc by simp
        with Cons.prems(3) have "(x # xs) ! Suc j \<noteq> m" by blast
        then show "xs ! j \<noteq> m" by simp
      qed
    qed
    ultimately show ?thesis using Suc by simp
  qed
qed

section \<open>The batch planner\<close>

text \<open>
  Claim C3. On a spreadsheet that exists, loads and has the column \<open>Contract_ID\<close>
  holding \<open>full_ids\<close>, with a positive quantity and a marker that is none or an
  identifier (a non-empty string): when the marker is none or absent from the list,
  \<open>get_contracts_to_process\<close> returns the first \<open>quantity\<close> identifiers; when the marker
  is in the list, with \<open>i\<close> the index of its first occurrence, it returns the \<open>quantity\<close>
  identifiers that follow index \<open>i\<close>, fewer when the list ends, possibly none. The length
  of the result is the minimum of \<open>quantity\<close> and the number of identifiers remaining.
\<close>

theorem get_contracts_to_process_plan:
  assumes "file_exists input_file = Inr True"
    and "read_excel input_file = Inr df"
    and "map_of df ''Contract_ID'' = Some column"
    and "full_ids = map astype_str column"
    and "0 < quantity"
    and "marker \<noteq> Some ''''"
  shows
    "(marker = None \<or> the marker \<notin> set full_ids \<longrightarrow>
        (\<exists>ids. get_contracts_to_process astype_str marker input_file quantity = Inr ids
           \<and> ids = take (nat quantity) full_ids
           \<and> length ids = min (nat quantity) (length full_ids)))
     \<and> (\<forall>i. marker \<noteq> None \<and> i < length full_ids \<and> full_ids ! i = the marker
            \<and> (\<forall>j<i. full_ids ! j \<noteq> the marker) \<longrightarrow>
        (\<exists>ids. get_contracts_to_process astype_str marker input_file quantity = Inr ids
           \<and> ids = take (nat quantity) (drop (Suc i) full_ids)
           \<and> length ids = min (nat quantity) (length full_ids - Suc i)))"
proof -
  let ?R = "get_contracts_to_process astype_str marker input_file quantity"
  have absent: "?R = Inr (take (nat quantity) full_ids)"
    if "marker = None \<or> the marker \<notin> set full_ids"
    using that assms(1-5)
    by (auto simp: get_contracts_to_process_def get_contracts_try_def Let_def py_slice_take)
  have present: "?R = Inr (take (nat quantity) (drop (Suc i) full_ids))"
    if "marker \<noteq> None" "i < length full_ids" "full_ids ! i = the marker"
      "\<forall>j<i. full_ids ! j \<noteq> the marker" for i
  proof -
    from that(1) assms(6) obtain m where m: "marker = Some m" "m \<noteq> ''''"
      by (cases marker) auto
    have mem: "m \<in> set full_ids"
      using that(2,3) m(1) nth_mem by fastforce
    have idx: "list_index full_ids m = Inr i"
      using list_index_first [of i full_ids m] that m(1) by simp
    show ?thesis
      using assms(1-5) m mem idx py_slice_drop_take [of quantity full_ids i]
      by (simp add: get_contracts_to_process_def get_contracts_try_def Let_def)
  qed
  show ?thesis
  proof (intro conjI allI impI)
    assume a: "marker = None \<or> the marker \<notin> set full_ids"
    show "\<exists>ids. ?R = Inr ids \<and> ids = take (nat quantity) full_ids
           \<and> length ids = min (nat quantity) (length full_ids)"
      by (simp add: absent [OF a])
  next
    fix i
    assume a: "marker \<noteq> None \<and> i < length full_ids \<and> full_ids ! i = the marker
            \<and> (\<forall>j<i. full_ids ! j \<noteq> the marker)"
    then have r: "?R = Inr (take (nat quantity) (drop (Suc i) full_ids))"
      using present [of i] by blast
    show "\<exists>ids. ?R = Inr ids \<and> ids = take (nat quantity) (drop (Suc i) full_ids)
           \<and> length ids = min (nat quantity) (length full_ids - Suc i)"
      by (simp add: r)
  qed
qed

text \<open>The two examples of the specification, from the theorem.\<close>

theorem get_contracts_to_process_plan_witness:
  "get_contracts_to_process (\<lambda>c. c) (Some ''C'') (sheet_of [''A'', ''B'', ''C'', ''D'', ''E'']) 2
     = Inr [''D'', ''E'']
   \<and> get_contracts_to_process (\<lambda>c. c) None (sheet_of [''A'', ''B'', ''C'']) 2
     = Inr [''A'', ''B'']"
proof -
  let ?ids = "[''A'', ''B'', ''C'', ''D'', ''E'']"
  let ?abc = "[''A'', ''B'', ''C'']"
  have first: "\<forall>j<2. ?ids ! j \<noteq> ''C''"
  proof (intro allI impI)
    fix j :: nat assume "j < 2"
    then have "j = 0 \<or> j = Suc 0" by auto
    then show "?ids ! j \<noteq> ''C''" by auto
  qed
  have "\<forall>i. Some ''C'' \<noteq> None \<and> i < length ?ids \<and> ?ids ! i = the (Some ''C'')
            \<and> (\<forall>j<i. ?ids ! j \<noteq> the (Some ''C'')) \<longrightarrow>
        (\<exists>ids. get_contracts_to_process (\<lambda>c. c) (Some ''C'') (sheet_of ?ids) 2 = Inr ids
           \<and> ids = take (nat 2) (drop (Suc i) ?ids)
           \<and> length ids = min (nat 2) (length ?ids - Suc i))"
    by (rule conjunct2, rule get_contracts_to_process_plan [where df = "[(''Contract_ID'', ?ids)]"
          and column = ?ids]) (simp_all add: sheet_of_def)
  then have "Some ''C'' \<noteq> None \<and> 2 < length ?ids \<and> ?ids ! 2 = the (Some ''C'')
            \<and> (\<forall>j<2. ?ids ! j \<noteq> the (Some ''C'')) \<longrightarrow>
        (\<exists>ids. get_contracts_to_process (\<lambda>c. c) (Some ''C'') (sheet_of ?ids) 2 = Inr ids
           \<and> ids = take (nat 2) (drop (Suc 2) ?ids)
           \<and> length ids = min (nat 2) (length ?ids - Suc 2))"
    by (rule spec)
  with first have c: "get_contracts_to_process (\<lambda>c. c) (Some ''C'') (sheet_of ?ids) 2
          = Inr (take (nat 2) (drop (Suc 2) ?ids))"
    by simp
  have "((None :: string option) = None \<or> the None \<notin> set ?abc \<longrightarrow>
        (\<exists>ids. get_contracts_to_process (\<lambda>c. c) None (sheet_of ?abc) 2 = Inr ids
           \<and> ids = take (nat 2) ?abc
           \<and> length ids = min (nat 2) (length ?abc)))"
    by (rule conjunct1, rule get_contracts_to_process_plan [where df = "[(''Contract_ID'', ?abc)]"
          and column = ?abc]) (simp_all add: sheet_of_def)
  then have n: "get_contracts_to_process (\<lambda>c. c) None (sheet_of ?abc) 2
      = Inr (take (nat 2) ?abc)"
    by simp
  show ?thesis
    unfolding c n by simp
qed

text \<open>
  Line 52 treats the empty string as no marker at all, also when the list holds an
  empty identifier.
\<close>

lemma get_contracts_to_process_empty_marker:
  "get_contracts_to_process astype_str (Some '''') input_file quantity
     = get_contracts_to_process astype_str None input_file quantity"
  by (simp add: get_contracts_to_process_def get_contracts_try_def Let_def
      split: sum.splits option.splits bool.splits)

section \<open>The branches of \<open>process_contract\<close>\<close>

lemma download_result:
  "download_contract_documents g cid w = (Inr (s, fp), w') \<Longrightarrow>
     (s = ''NO_FILES'' \<and> fp = None) \<or> (s = ''DOWNLOADED'' \<and> fp \<noteq> None)"
  by (auto simp: download_contract_documents_def download_try_def and_then_def try_except_def
      Let_def split: prod.splits sum.splits if_splits)

text \<open>The body of the \<open>try\<close> statement, one lemma for each way through it.\<close>

lemma try_search_failed:
  "search_contract g cid w0 = (False, w1) \<Longrightarrow>
   process_contract_try g cid t w0 =
     (Raised (Exception ''Falha na pesquisa do contrato''), ''SEARCH_FAILED'', None, [SEARCH], w1)"
  by (simp add: process_contract_try_def)

lemma try_open_raised:
  "search_contract g cid w0 = (True, w1) \<Longrightarrow> open_contract g cid w1 = (Inl e, w2) \<Longrightarrow>
   process_contract_try g cid t w0 = (Raised e, ''PROCESSED'', None, [SEARCH, OPEN], w2)"
  by (simp add: process_contract_try_def)

lemma try_not_found:
  "search_contract g cid w0 = (True, w1) \<Longrightarrow>
   open_contract g cid w1 = (Inr ''NOT_FOUND'', w2) \<Longrightarrow>
   process_contract_try g cid t w0 =
     (Returned \<lparr>Contract_ID = cid, Status = ''NOT_FOUND'',
                 Duration = py_int (time_time g w2 - t), File_Path = None\<rparr>,
      ''NOT_FOUND'', None, [SEARCH, OPEN], w2)"
  by (simp add: process_contract_try_def)

lemma try_open_failed:
  "search_contract g cid w0 = (True, w1) \<Longrightarrow> open_contract g cid w1 = (Inr s, w2) \<Longrightarrow>
   s \<noteq> ''NOT_FOUND'' \<Longrightarrow> s \<noteq> ''OPENED'' \<Longrightarrow>
   process_contract_try g cid t w0 =
     (Raised (Exception ''Falha ao abrir o contrato''), ''OPEN_FAILED'', None, [SEARCH, OPEN], w2)"
  by (simp add: process_contract_try_def)

lemma try_access_raised:
  "search_contract g cid w0 = (True, w1) \<Longrightarrow> open_contract g cid w1 = (Inr ''OPENED'', w2) \<Longrightarrow>
   access_contract_documents g cid w2 = (Inl e, w3) \<Longrightarrow>
   process_contract_try g cid t w0 =
     (Raised e, ''PROCESSED'', None, [SEARCH, OPEN, ACCESS_DOCUMENTS], w3)"
  by (simp add: process_contract_try_def)

lemma try_access_failed:
  "search_contract g cid w0 = (True, w1) \<Longrightarrow> open_contract g cid w1 = (Inr ''OPENED'', w2) \<Longrightarrow>
   access_contract_documents g cid w2 = (Inr False, w3) \<Longrightarrow>
   process_contract_try g cid t w0 =
     (Raised (Exception ''Falha ao acessar documentos''), ''DOCUMENTS_ACCESS_FAILED'', None,
      [SEARCH, OPEN, ACCESS_DOCUMENTS], w3)"
  by (simp add: process_contract_try_def)

lemma try_download_raised:
  "search_contract g cid w0 = (True, w1) \<Longrightarrow> open_contract g cid w1 = (Inr ''OPENED'', w2) \<Longrightarrow>
   access_contract_documents g cid w2 = (Inr True, w3) \<Longrightarrow>
   download_contract_documents g cid w3 = (Inl e, w4) \<Longrightarrow>
   process_contract_try g cid t w0 =
     (Raised e, ''PROCESSED'', None, [SEARCH, OPEN, ACCESS_DOCUMENTS, DOWNLOAD], w4)"
  by (simp add: process_contract_try_def)

lemma try_no_files:
  "search_contract g cid w0 = (True, w1) \<Longrightarrow> open_contract g cid w1 = (Inr ''OPENED'', w2) \<Longrightarrow>
   access_contract_documents g cid w2 = (Inr True, w3) \<Longrightarrow>
   download_contract_documents g cid w3 = (Inr (''NO_FILES'', fp), w4) \<Longrightarrow>
   process_contract_try g cid t w0 =
     (Completed, ''NO_FILES'', fp, [SEARCH, OPEN, ACCESS_DOCUMENTS, DOWNLOAD], w4)"
  by (simp add: process_contract_try_def)

lemma try_downloaded:
  "search_contract g cid w0 = (True, w1) \<Longrightarrow> open_contract g cid w1 = (Inr ''OPENED'', w2) \<Longrightarrow>
   access_contract_documents g cid w2 = (Inr True, w3) \<Longrightarrow>
   download_contract_documents g cid w3 = (Inr (''DOWNLOADED'', fp), w4) \<Longrightarrow>
   process_contract_try g cid t w0 =
     (Completed, ''PROCESSED'', fp, [SEARCH, OPEN, ACCESS_DOCUMENTS, DOWNLOAD], w4)"
  by (simp add: process_contract_try_def)

lemma process_contract_try_cases:
  "\<exists>ended st fp steps w1.
     process_contract_try g cid t w0 = (ended, st, fp, steps, w1)
     \<and> NAVIGATE_HOME \<notin> set steps \<and> try_ending ended st fp"
proof -
  obtain found v1 where s: "search_contract g cid w0 = (found, v1)"
    by (cases "search_contract g cid w0")
  show ?thesis
  proof (cases found)
    case False
    with s show ?thesis by (simp add: try_ending_def try_search_failed)
  next
    case True
    with s have s: "search_contract g cid w0 = (True, v1)" by simp
    obtain ro v2 where o: "open_contract g cid v1 = (ro, v2)"
      by (cases "open_contract g cid v1")
    show ?thesis
    proof (cases ro)
      case (Inl e)
      with o show ?thesis by (simp add: try_ending_def try_open_raised [OF s])
    next
      case (Inr open_status)
      with o have o: "open_contract g cid v1 = (Inr open_status, v2)" by simp
      consider "open_status = ''NOT_FOUND''" | "open_status = ''OPENED''"
        | "open_status \<noteq> ''NOT_FOUND''" "open_status \<noteq> ''OPENED''"
        by blast
      then show ?thesis
      proof cases
        case 1
        with o show ?thesis by (simp add: try_ending_def try_not_found [OF s])
      next
        case 3
        then show ?thesis by (simp add: try_ending_def try_open_failed [OF s o])
      next
        case 2
        with o have o: "open_contract g cid v1 = (Inr ''OPENED'', v2)" by simp
        obtain ra v3 where a: "access_contract_documents g cid v2 = (ra, v3)"
          by (cases "access_contract_documents g cid v2")
        show ?thesis
        proof (cases ra)
          case (Inl e)
          with a show ?thesis by (simp add: try_ending_def try_access_raised [OF s o])
        next
          case (Inr accessed)
          show ?thesis
          proof (cases accessed)
            case False
            with a Inr show ?thesis by (simp add: try_ending_def try_access_failed [OF s o])
          next
            case True
            with a Inr have a: "access_contract_documents g cid v2 = (Inr True, v3)" by simp
            obtain rd v4 where d: "download_contract_documents g cid v3 = (rd, v4)"
              by (cases "download_contract_documents g cid v3")
            show ?thesis
            proof (cases rd)
              case (Inl e)
              with d show ?thesis by (simp add: try_ending_def try_download_raised [OF s o a])
            next
              case (Inr pr)
              obtain ds p where pr: "pr = (ds, p)" by (cases pr)
              with d Inr have d: "download_contract_documents g cid v3 = (Inr (ds, p), v4)"
                by simp
              from download_result [OF d]
              show ?thesis
              proof
                assume "ds = ''NO_FILES'' \<and> p = None"
                with d show ?thesis by (simp add: try_ending_def try_no_files [OF s o a])
              next
                assume "ds = ''DOWNLOADED'' \<and> p \<noteq> None"
                with d show ?thesis by (auto simp add: try_ending_def try_downloaded [OF s o a])
              qed
            qed
          qed
        qed
      qed
    qed
  qed
qed

text \<open>The function from the result of its \<open>try\<close> body.\<close>

lemma process_contract_unfold:
  assumes "process_contract_try g cid (time_time g w0) w0 = (ended, st, fp, steps, w1)"
  shows "process_contract g cid url w0 =
     (Inr \<lparr>Contract_ID = cid,
           Status = (case ended of Raised e \<Rightarrow> ''ERROR_'' @ st | _ \<Rightarrow> st),
           Duration = py_int (time_time g w1 - time_time g w0), File_Path = fp\<rparr>,
      steps @ [NAVIGATE_HOME], snd (navigate_to_homepage g url w1))"
proof -
  have "(case fp of None \<Rightarrow> None | Some p \<Rightarrow> Some p) = fp"
    by (cases fp) simp_all
  then show ?thesis
    using assms by (simp add: process_contract_def Let_def split: prod.splits)
qed

section \<open>The contract processor\<close>

text \<open>The definitions a run of \<open>process_contract\<close> on a concrete session unfolds.\<close>

lemmas pc_defs = process_contract_def process_contract_try_def search_contract_def
  navigate_to_homepage_def download_contract_documents_def download_try_def and_then_def
  try_except_def py_int_def

text \<open>
  Claim C1 says that a failed search gives the status \<open>SEARCH_FAILED\<close>. Line 188 sets
  that status and line 189 raises; the handler of line 215 then prefixes it. With a
  search field that never shows, the status returned is \<open>ERROR_SEARCH_FAILED\<close>.
\<close>

theorem search_failed_counterexample:
  "fst (search_contract gw_search_timeout ''4600001'' 0) = False
   \<and> process_contract gw_search_timeout ''4600001'' ''url'' 0 =
       (Inr \<lparr>Contract_ID = ''4600001'', Status = ''ERROR_SEARCH_FAILED'', Duration = 15,
             File_Path = None\<rparr>,
        [SEARCH, NAVIGATE_HOME], 115)
   \<and> ''ERROR_SEARCH_FAILED'' \<noteq> ''SEARCH_FAILED''"
  by (simp add: gw_ok_def gw_search_timeout_def pc_defs)

text \<open>
  Claim C1, amended. For every contract whose search step fails, \<open>process_contract\<close>
  returns an outcome whose status is exactly \<open>ERROR_SEARCH_FAILED\<close> and whose file
  path is none; only the search and the return to the home page were attempted.
\<close>

theorem search_failed_outcome:
  assumes "fst (search_contract g cid w0) = False"
  shows "\<exists>d w'. process_contract g cid url w0 =
     (Inr \<lparr>Contract_ID = cid, Status = ''ERROR_SEARCH_FAILED'', Duration = d, File_Path = None\<rparr>,
      [SEARCH, NAVIGATE_HOME], w')"
proof -
  from assms have "search_contract g cid w0 = (False, snd (search_contract g cid w0))"
    by (cases "search_contract g cid w0") simp
  from process_contract_unfold [OF try_search_failed [OF this]]
  show ?thesis by simp
qed

theorem search_failed_outcome_witness:
  "fst (search_contract gw_search_timeout ''4600001'' 0) = False
   \<and> (\<exists>d w'. process_contract gw_search_timeout ''4600001'' ''url'' 0 =
     (Inr \<lparr>Contract_ID = ''4600001'', Status = ''ERROR_SEARCH_FAILED'', Duration = d,
           File_Path = None\<rparr>,
      [SEARCH, NAVIGATE_HOME], w'))"
proof -
  have h: "fst (search_contract gw_search_timeout ''4600001'' 0) = False"
    by (simp add: gw_ok_def gw_search_timeout_def search_contract_def)
  from h search_failed_outcome [OF h, of "''url''"] show ?thesis by blast
qed

text \<open>
  Claim C2 says that the \<open>NOT_FOUND\<close> branch returns without going back to the home
  page. The \<open>return\<close> of line 194 is inside the \<open>try\<close> statement, so the \<open>finally\<close>
  block runs before the function is left: the home page is visited, and the dictionary
  built at line 222 is the one returned.
\<close>

theorem not_found_counterexample:
  "search_contract gw_no_row ''4600001'' 0 = (True, 1)
   \<and> open_contract gw_no_row ''4600001'' 1 = (Inr ''NOT_FOUND'', 2)
   \<and> process_contract gw_no_row ''4600001'' ''url'' 0 =
       (Inr \<lparr>Contract_ID = ''4600001'', Status = ''NOT_FOUND'', Duration = 2, File_Path = None\<rparr>,
        [SEARCH, OPEN, NAVIGATE_HOME], 102)
   \<and> NAVIGATE_HOME \<in> set [SEARCH, OPEN, NAVIGATE_HOME]"
  by (simp add: gw_ok_def gw_no_row_def pc_defs)

text \<open>
  Claim C2, amended. For every contract and every behaviour of the gateway,
  \<open>process_contract\<close> attempts \<open>NAVIGATE_HOME\<close> exactly once, as its last step, after
  every terminal branch. The \<open>NOT_FOUND\<close> branch is no exception: there the steps are
  the search, the opening and the return to the home page, from the world the opening
  left.
\<close>

theorem navigate_home_always:
  "\<exists>r before w1.
     process_contract g cid url w0 =
       (Inr r, before @ [NAVIGATE_HOME], snd (navigate_to_homepage g url w1))
     \<and> NAVIGATE_HOME \<notin> set before
     \<and> (\<forall>v1 v2. search_contract g cid w0 = (True, v1)
            \<and> open_contract g cid v1 = (Inr ''NOT_FOUND'', v2) \<longrightarrow>
          Status r = ''NOT_FOUND'' \<and> before = [SEARCH, OPEN] \<and> w1 = v2)"
proof -
  from process_contract_try_cases [of g cid "time_time g w0" w0]
  obtain ended st fp steps w1 where
    t: "process_contract_try g cid (time_time g w0) w0 = (ended, st, fp, steps, w1)"
    and n: "NAVIGATE_HOME \<notin> set steps"
    by blast
  let ?r = "\<lparr>Contract_ID = cid,
           Status = (case ended of Raised e \<Rightarrow> ''ERROR_'' @ st | _ \<Rightarrow> st),
           Duration = py_int (time_time g w1 - time_time g w0), File_Path = fp\<rparr>"
  have nf: "Status ?r = ''NOT_FOUND'' \<and> steps = [SEARCH, OPEN] \<and> w1 = v2"
    if "search_contract g cid w0 = (True, v1)"
      "open_contract g cid v1 = (Inr ''NOT_FOUND'', v2)" for v1 v2
    using t try_not_found [OF that, of "time_time g w0"] by auto
  show ?thesis
    using process_contract_unfold [OF t, of url] n nf by blast
qed

theorem navigate_home_always_witness:
  "search_contract gw_no_row ''4600001'' 0 = (True, 1)
   \<and> open_contract gw_no_row ''4600001'' 1 = (Inr ''NOT_FOUND'', 2)
   \<and> (\<exists>r. process_contract gw_no_row ''4600001'' ''url'' 0 =
         (Inr r, [SEARCH, OPEN] @ [NAVIGATE_HOME],
          snd (navigate_to_homepage gw_no_row ''url'' 2))
       \<and> Status r = ''NOT_FOUND'')"
proof -
  have s: "search_contract gw_no_row ''4600001'' 0 = (True, 1)"
    by (simp add: gw_ok_def gw_no_row_def search_contract_def)
  have o: "open_contract gw_no_row ''4600001'' 1 = (Inr ''NOT_FOUND'', 2)"
    by (simp add: gw_ok_def gw_no_row_def)
  from navigate_home_always [of gw_no_row "''4600001''" "''url''" 0] s o
  show ?thesis by blast
qed

text \<open>When the body of \<open>download_contract_documents\<close> raises, its handler decides.\<close>

lemma download_handler:
  assumes "download_try g cid w3 = (Inl e, w4)"
  shows "download_contract_documents g cid w3 =
     (case no_documents_count g w4 of
        (Inl e', w5) \<Rightarrow> (Inl e', w5)
      | (Inr n, w5) \<Rightarrow> (Inr (''NO_FILES'', None), w5))"
  using assms
  by (simp add: download_contract_documents_def try_except_def and_then_def
      split: prod.splits sum.splits)

text \<open>
  Claim C5 says that a download that fails for a reason other than the absence of
  files is recorded as \<open>DOWNLOAD_FAILED\<close>. The handler of lines 93 to 98 answers
  \<open>NO_FILES\<close> whatever the probe of line 95 counts. With a download that never starts
  and a page that does not show the no-documents message, the recorded status is
  \<open>NO_FILES\<close>.
\<close>

theorem download_failure_counterexample:
  "search_contract gw_no_download ''4600001'' 0 = (True, 1)
   \<and> open_contract gw_no_download ''4600001'' 1 = (Inr ''OPENED'', 2)
   \<and> access_contract_documents gw_no_download ''4600001'' 2 = (Inr True, 3)
   \<and> download_try gw_no_download ''4600001'' 3 = (Inl (Exception ''TimeoutError''), 65)
   \<and> no_documents_count gw_no_download 65 = (Inr 0, 65)
   \<and> process_contract gw_no_download ''4600001'' ''url'' 0 =
       (Inr \<lparr>Contract_ID = ''4600001'', Status = ''NO_FILES'', Duration = 65, File_Path = None\<rparr>,
        [SEARCH, OPEN, ACCESS_DOCUMENTS, DOWNLOAD, NAVIGATE_HOME], 165)
   \<and> ''NO_FILES'' \<noteq> ''DOWNLOAD_FAILED''"
  by (simp add: gw_ok_def gw_no_download_def pc_defs)

text \<open>
  Claim C5, amended. For every contract where the access to the documents succeeded
  and the body of the download step raises, for whatever reason, the recorded status is
  \<open>NO_FILES\<close> with no file path (\<open>ERROR_PROCESSED\<close> when the probe for the
  no-documents message raises too), never \<open>DOWNLOAD_FAILED\<close>, and \<open>NAVIGATE_HOME\<close>
  is executed afterwards.
\<close>

theorem download_failure_outcome:
  assumes "search_contract g cid w0 = (True, w1)"
    and "open_contract g cid w1 = (Inr ''OPENED'', w2)"
    and "access_contract_documents g cid w2 = (Inr True, w3)"
    and "download_try g cid w3 = (Inl e, w4)"
  shows "\<exists>d w'. process_contract g cid url w0 =
     (Inr \<lparr>Contract_ID = cid,
           Status = (case fst (no_documents_count g w4) of
                       Inl e' \<Rightarrow> ''ERROR_PROCESSED'' | Inr n \<Rightarrow> ''NO_FILES''),
           Duration = d, File_Path = None\<rparr>,
      [SEARCH, OPEN, ACCESS_DOCUMENTS, DOWNLOAD, NAVIGATE_HOME], w')"
proof -
  obtain rc w5 where c: "no_documents_count g w4 = (rc, w5)"
    by (cases "no_documents_count g w4")
  show ?thesis
  proof (cases rc)
    case (Inl e')
    with c download_handler [OF assms(4)]
    have "download_contract_documents g cid w3 = (Inl e', w5)" by simp
    from process_contract_unfold [OF try_download_raised [OF assms(1-3) this]]
    show ?thesis using c Inl by simp
  next
    case (Inr n)
    with c download_handler [OF assms(4)]
    have "download_contract_documents g cid w3 = (Inr (''NO_FILES'', None), w5)" by simp
    from process_contract_unfold [OF try_no_files [OF assms(1-3) this]]
    show ?thesis using c Inr by simp
  qed
qed

theorem download_failure_outcome_witness:
  "\<exists>d w'. process_contract gw_no_download ''4600001'' ''url'' 0 =
     (Inr \<lparr>Contract_ID = ''4600001'', Status = ''NO_FILES'', Duration = d, File_Path = None\<rparr>,
      [SEARCH, OPEN, ACCESS_DOCUMENTS, DOWNLOAD, NAVIGATE_HOME], w')"
proof -
  have s: "search_contract gw_no_download ''4600001'' 0 = (True, 1)"
    by (simp add: gw_ok_def gw_no_download_def search_contract_def)
  have o: "open_contract gw_no_download ''4600001'' 1 = (Inr ''OPENED'', 2)"
    by (simp add: gw_ok_def gw_no_download_def)
  have a: "access_contract_documents gw_no_download ''4600001'' 2 = (Inr True, 3)"
    by (simp add: gw_ok_def gw_no_download_def)
  have d: "download_try gw_no_download ''4600001'' 3 = (Inl (Exception ''TimeoutError''), 65)"
    by (simp add: gw_ok_def gw_no_download_def download_try_def and_then_def try_except_def)
  have c: "fst (no_documents_count gw_no_download 65) = Inr 0"
    by (simp add: gw_ok_def gw_no_download_def)
  from download_failure_outcome [OF s o a d, of "''url''"] c show ?thesis by simp
qed

section \<open>The summary\<close>

lemma summary_counts_append:
  "success_count (generate_summary now (report @ [row]) t0 p) =
     success_count (generate_summary now report t0 p) + (if Status row = ''PROCESSED'' then 1 else 0)"
  "no_files_count (generate_summary now (report @ [row]) t0 p) =
     no_files_count (generate_summary now report t0 p) + (if Status row = ''NO_FILES'' then 1 else 0)"
  "error_count (generate_summary now (report @ [row]) t0 p) =
     error_count (generate_summary now report t0 p)
       + (if Status row = ''PROCESSED'' \<or> Status row = ''NO_FILES'' then 0 else 1)"
  by (auto simp: generate_summary_def Let_def)

text \<open>
  Claim C6. For every contract where \<open>download_contract_documents\<close> reports no files,
  the outcome has the status \<open>NO_FILES\<close> and no file path, and a row with that status
  adds one to the count of contracts without documents of \<open>generate_summary\<close> and
  nothing to its counts of successes and of failures.
\<close>

theorem no_files_outcome:
  assumes "search_contract g cid w0 = (True, w1)"
    and "open_contract g cid w1 = (Inr ''OPENED'', w2)"
    and "access_contract_documents g cid w2 = (Inr True, w3)"
    and "download_contract_documents g cid w3 = (Inr (''NO_FILES'', fp), w4)"
  shows "(\<exists>d w'. process_contract g cid url w0 =
            (Inr \<lparr>Contract_ID = cid, Status = ''NO_FILES'', Duration = d, File_Path = None\<rparr>,
             [SEARCH, OPEN, ACCESS_DOCUMENTS, DOWNLOAD, NAVIGATE_HOME], w'))
     \<and> (\<forall>row report now t0 p. Status row = ''NO_FILES'' \<longrightarrow>
           error_count (generate_summary now (report @ [row]) t0 p)
             = error_count (generate_summary now report t0 p)
           \<and> success_count (generate_summary now (report @ [row]) t0 p)
             = success_count (generate_summary now report t0 p)
           \<and> no_files_count (generate_summary now (report @ [row]) t0 p)
             = no_files_count (generate_summary now report t0 p) + 1)"
proof (intro conjI allI impI)
  from download_result [OF assms(4)] have "fp = None" by simp
  with process_contract_unfold [OF try_no_files [OF assms]]
  show "\<exists>d w'. process_contract g cid url w0 =
            (Inr \<lparr>Contract_ID = cid, Status = ''NO_FILES'', Duration = d, File_Path = None\<rparr>,
             [SEARCH, OPEN, ACCESS_DOCUMENTS, DOWNLOAD, NAVIGATE_HOME], w')"
    by simp
qed (simp_all add: summary_counts_append)

theorem no_files_outcome_witness:
  "(\<exists>d w'. process_contract gw_no_files ''4600001'' ''url'' 0 =
            (Inr \<lparr>Contract_ID = ''4600001'', Status = ''NO_FILES'', Duration = d,
                  File_Path = None\<rparr>,
             [SEARCH, OPEN, ACCESS_DOCUMENTS, DOWNLOAD, NAVIGATE_HOME], w'))
   \<and> error_count (generate_summary 9 [\<lparr>Contract_ID = ''4600001'', Status = ''NO_FILES'',
         Duration = 9, File_Path = None\<rparr>] 0 ''report.xlsx'') = 0"
proof -
  have s: "search_contract gw_no_files ''4600001'' 0 = (True, 1)"
    by (simp add: gw_ok_def gw_no_files_def search_contract_def)
  have o: "open_contract gw_no_files ''4600001'' 1 = (Inr ''OPENED'', 2)"
    by (simp add: gw_ok_def gw_no_files_def)
  have a: "access_contract_documents gw_no_files ''4600001'' 2 = (Inr True, 3)"
    by (simp add: gw_ok_def gw_no_files_def)
  have d: "download_contract_documents gw_no_files ''4600001'' 3 = (Inr (''NO_FILES'', None), 9)"
    by (simp add: gw_ok_def gw_no_files_def download_contract_documents_def download_try_def
        and_then_def try_except_def)
  have e: "error_count (generate_summary 9 [] 0 ''report.xlsx'') = 0"
    by (simp add: generate_summary_def)
  from no_files_outcome [OF s o a d, of "''url''"] e show ?thesis
    by (metis append_Nil outcome.select_convs(2))
qed

text \<open>The body of the \<open>try\<close> statement never goes to the home page.\<close>

lemma try_ignores_home:
  "process_contract_try (g\<lparr>page_goto_home := h\<rparr>) cid t w0 = process_contract_try g cid t w0"
proof -
  have s: "search_contract (g\<lparr>page_goto_home := h\<rparr>) = search_contract g"
    by (simp add: search_contract_def fun_eq_iff)
  have d: "download_contract_documents (g\<lparr>page_goto_home := h\<rparr>)
             = download_contract_documents g"
    by (simp add: download_contract_documents_def download_try_def fun_eq_iff)
  show ?thesis
    by (simp add: process_contract_try_def s d
        cong: prod.case_cong sum.case_cong if_cong)
qed

text \<open>
  The \<open>Duration\<close> key of the dictionary \<open>process_contract\<close> returns is read at line
  219, before line 220 goes to the home page, so it does not depend on that step. The
  runner does not read this key: it records its own measurement (see below).
\<close>

lemma process_contract_duration_key:
  "\<exists>r steps ended st fp ss w1.
     process_contract g cid url w0 = (Inr r, steps, snd (navigate_to_homepage g url w1))
     \<and> process_contract_try g cid (time_time g w0) w0 = (ended, st, fp, ss, w1)
     \<and> Duration r = py_int (time_time g w1 - time_time g w0)
     \<and> (\<forall>h. fst (process_contract (g\<lparr>page_goto_home := h\<rparr>) cid url w0) = Inr r)"
proof -
  obtain ended st fp ss w1 where
    t: "process_contract_try g cid (time_time g w0) w0 = (ended, st, fp, ss, w1)"
    by (cases "process_contract_try g cid (time_time g w0) w0")
  have t': "process_contract_try (g\<lparr>page_goto_home := h\<rparr>) cid
              (time_time (g\<lparr>page_goto_home := h\<rparr>) w0) w0 = (ended, st, fp, ss, w1)" for h
    using t by (simp add: try_ignores_home)
  have "fst (process_contract (g\<lparr>page_goto_home := h\<rparr>) cid url w0)
          = fst (process_contract g cid url w0)" for h
    by (simp add: process_contract_unfold [OF t'] process_contract_unfold [OF t])
  then show ?thesis
    using process_contract_unfold [OF t, of url] t by auto
qed

section \<open>Totality of the contract processor\<close>

lemma try_ending_status:
  assumes "try_ending ended st fp"
  shows "(case ended of Raised e \<Rightarrow> ''ERROR_'' @ st | _ \<Rightarrow> st) \<in> set final_statuses"
  using assms unfolding try_ending_def final_statuses_def
  by (elim disjE exE conjE) simp_all

lemma final_statuses_not_error:
  assumes "s \<in> set final_statuses"
  shows "s \<noteq> ''ERROR'' \<and> s \<noteq> []"
proof -
  have "''ERROR'' \<notin> set final_statuses" and "[] \<notin> set final_statuses"
    by (simp_all add: final_statuses_def)
  with assms show ?thesis by metis
qed

lemma process_contract_status:
  "\<exists>r steps w'. process_contract g cid url w0 = (Inr r, steps, w')
     \<and> Contract_ID r = cid \<and> Status r \<in> set final_statuses"
proof -
  from process_contract_try_cases [of g cid "time_time g w0" w0]
  obtain ended st fp steps w1 where
    t: "process_contract_try g cid (time_time g w0) w0 = (ended, st, fp, steps, w1)"
    and c: "try_ending ended st fp"
    by blast
  from try_ending_status [OF c] show ?thesis
    by (simp add: process_contract_unfold [OF t])
qed

lemma process_with_status:
  "\<exists>res w'. process_with g url cid w = (Inr res, w') \<and> Status res \<in> set final_statuses"
proof -
  from process_contract_status [of g cid url w]
  obtain r steps w' where "process_contract g cid url w = (Inr r, steps, w')"
    and "Status r \<in> set final_statuses"
    by blast
  then show ?thesis by (simp add: process_with_def)
qed

lemma main_loop_no_error:
  assumes "\<And>cid w. \<exists>res w'. process r cid w = (Inr res, w') \<and> Status res \<in> set final_statuses"
  shows "\<forall>row\<in>set report. Status row \<in> set final_statuses \<Longrightarrow>
         \<forall>row\<in>set (fst (main_loop r i ids report w)). Status row \<in> set final_statuses"
proof (induction ids arbitrary: i report w)
  case Nil
  then show ?case by simp
next
  case (Cons cid rest)
  show ?case
  proof (cases "should_stop r i")
    case True
    with Cons.prems show ?thesis by simp
  next
    case False
    from assms [of cid w] obtain res w' where
      p: "process r cid w = (Inr res, w')" and s: "Status res \<in> set final_statuses"
      by blast
    let ?row = "\<lparr>Contract_ID = cid, Status = Status res,
                 Duration = round_2 r (clock r w' - clock r w), File_Path = File_Path res\<rparr>"
    have "\<forall>row\<in>set (report @ [?row]). Status row \<in> set final_statuses"
      using Cons.prems s by simp
    from Cons.IH [OF this, of "Suc i" w'] False p show ?thesis
      by (simp add: Let_def)
  qed
qed

text \<open>
  Claim C10. For every behaviour of the gateway steps, raising steps included,
  \<open>process_contract\<close> propagates no exception: it returns a dictionary with the four
  keys, the identifier it was given and a non-empty status. When the body of the \<open>try\<close>
  statement raised, the status is \<open>ERROR_\<close> followed by the value the variable
  \<open>status\<close> had at that moment (\<open>PROCESSED\<close> when a gateway step raised, the failure
  status when line 189, 202 or 206 raised). Hence, with \<open>process_contract\<close> as its
  processor, the loop of the runner never takes its \<open>ERROR\<close> branch: no row of the
  report has the status \<open>ERROR\<close>.
\<close>

theorem process_contract_total:
  "(\<exists>r steps w'. process_contract g cid url w0 = (Inr r, steps, w')
       \<and> Contract_ID r = cid \<and> Status r \<noteq> []
       \<and> (\<forall>e st fp ss w1.
             process_contract_try g cid (time_time g w0) w0 = (Raised e, st, fp, ss, w1) \<longrightarrow>
             Status r = ''ERROR_'' @ st))
   \<and> (\<forall>row\<in>set (fst (main_loop (rn\<lparr>process := process_with g url\<rparr>) i ids [] w)).
         Status row \<noteq> ''ERROR'')"
proof (intro conjI)
  from process_contract_status [of g cid url w0]
  obtain r steps w' where r: "process_contract g cid url w0 = (Inr r, steps, w')"
    "Contract_ID r = cid" "Status r \<in> set final_statuses"
    by blast
  have "Status r = ''ERROR_'' @ st"
    if "process_contract_try g cid (time_time g w0) w0 = (Raised e, st, fp, ss, w1)"
    for e st fp ss w1
    using process_contract_unfold [OF that, of url] r(1) by simp
  with r final_statuses_not_error [OF r(3)]
  show "\<exists>r steps w'. process_contract g cid url w0 = (Inr r, steps, w')
       \<and> Contract_ID r = cid \<and> Status r \<noteq> []
       \<and> (\<forall>e st fp ss w1.
             process_contract_try g cid (time_time g w0) w0 = (Raised e, st, fp, ss, w1) \<longrightarrow>
             Status r = ''ERROR_'' @ st)"
    by blast
next
  let ?rn = "rn\<lparr>process := process_with g url\<rparr>"
  have "\<forall>row\<in>set (fst (main_loop ?rn i ids [] w)). Status row \<in> set final_statuses"
  proof (rule main_loop_no_error)
    fix c v
    show "\<exists>res w'. process ?rn c v = (Inr res, w') \<and> Status res \<in> set final_statuses"
      using process_with_status [of g url c v] by simp
  qed simp
  then show "\<forall>row\<in>set (fst (main_loop ?rn i ids [] w)). Status row \<noteq> ''ERROR''"
    using final_statuses_not_error by blast
qed

theorem process_contract_total_witness:
  "(\<exists>r. fst (process_contract gw_open_raises ''4600001'' ''url'' 0) = Inr r
        \<and> Status r = ''ERROR_PROCESSED'')
   \<and> ''ERROR'' \<notin> set (map Status
         (fst (main_loop (rn_ok\<lparr>process := process_with gw_open_raises ''url''\<rparr>)
                 1 [''4600001''] [] 0)))"
proof -
  have t: "process_contract_try gw_open_raises ''4600001'' (time_time gw_open_raises 0) 0 =
      (Raised (Exception ''TargetClosedError''), ''PROCESSED'', None, [SEARCH, OPEN], 2)"
    by (simp add: gw_ok_def gw_open_raises_def process_contract_try_def search_contract_def)
  note inst = process_contract_total [of gw_open_raises "''4600001''" "''url''" 0 rn_ok 1
      "[''4600001'']" 0]
  from inst obtain r steps w' where
    r: "process_contract gw_open_raises ''4600001'' ''url'' 0 = (Inr r, steps, w')"
    and e: "\<forall>e st fp ss w1.
             process_contract_try gw_open_raises ''4600001'' (time_time gw_open_raises 0) 0
               = (Raised e, st, fp, ss, w1) \<longrightarrow>
             Status r = ''ERROR_'' @ st"
    by blast
  from e t have "Status r = ''ERROR_'' @ ''PROCESSED''" by blast
  with r have "\<exists>r. fst (process_contract gw_open_raises ''4600001'' ''url'' 0) = Inr r
        \<and> Status r = ''ERROR_PROCESSED''"
    by simp
  moreover from inst
  have "''ERROR'' \<notin> set (map Status
         (fst (main_loop (rn_ok\<lparr>process := process_with gw_open_raises ''url''\<rparr>)
                 1 [''4600001''] [] 0)))"
    by auto
  ultimately show ?thesis by (rule conjI)
qed

section \<open>The batch runner\<close>

lemma main_loop_stop [simp]:
  "should_stop r i \<Longrightarrow> main_loop r i ids report w = (report, w)"
  by (cases ids) simp_all

lemma main_loop_append:
  "(\<forall>j. i \<le> j \<and> j < i + length pre \<longrightarrow> \<not> should_stop r j) \<Longrightarrow>
   main_loop r i (pre @ post) report w =
     (case main_loop r i pre report w of
        (report', w') \<Rightarrow> main_loop r (i + length pre) post report' w')"
proof (induction pre arbitrary: i report w)
  case Nil
  then show ?case by simp
next
  case (Cons cid rest)
  have ns: "\<not> should_stop r i" using Cons.prems by simp
  have later: "\<forall>j. Suc i \<le> j \<and> j < Suc i + length rest \<longrightarrow> \<not> should_stop r j"
    using Cons.prems by simp
  show ?case
    using ns Cons.IH [OF later]
    by (simp add: Let_def split: prod.splits sum.splits)
qed

lemma main_loop_all:
  "(\<forall>j. i \<le> j \<and> j < i + length ids \<longrightarrow> \<not> should_stop r j) \<Longrightarrow>
   \<exists>rows. fst (main_loop r i ids report w) = report @ rows \<and> map Contract_ID rows = ids"
proof (induction ids arbitrary: i report w)
  case Nil
  then show ?case by simp
next
  case (Cons cid rest)
  have ns: "\<not> should_stop r i" using Cons.prems by simp
  have later: "\<forall>j. Suc i \<le> j \<and> j < Suc i + length rest \<longrightarrow> \<not> should_stop r j"
    using Cons.prems by simp
  obtain res w' where p: "process r cid w = (res, w')"
    by (cases "process r cid w")
  define row where "row = (case res of
      Inl e \<Rightarrow> \<lparr>Contract_ID = cid, Status = ''ERROR'', Duration = 0, File_Path = None\<rparr>
    | Inr result \<Rightarrow> \<lparr>Contract_ID = cid, Status = Status result,
          Duration = round_2 r (clock r w' - clock r w), File_Path = File_Path result\<rparr>)"
  have step: "main_loop r i (cid # rest) report w = main_loop r (Suc i) rest (report @ [row]) w'"
    using ns p by (cases res) (simp_all add: row_def Let_def)
  have cid: "Contract_ID row = cid"
    by (cases res) (simp_all add: row_def)
  from Cons.IH [OF later, of "report @ [row]" w'] obtain rows where
    "fst (main_loop r (Suc i) rest (report @ [row]) w') = (report @ [row]) @ rows"
    "map Contract_ID rows = rest"
    by blast
  with step cid show ?case
    by (intro exI [of _ "row # rows"]) simp
qed

text \<open>
  Claim C7. For every identifier of the plan, if the processor raises for it (the
  loop having reached it without a stop request), the runner records for that
  identifier the row with status \<open>ERROR\<close>, duration zero and no file path, and goes on
  with the next identifier from the world the failure left; when no stop is ever
  requested, each of the identifiers that follow gets its row.
\<close>

theorem runner_error_outcome:
  assumes "\<forall>j. 1 \<le> j \<and> j \<le> Suc (length pre) \<longrightarrow> \<not> should_stop r j"
    and "main_loop r 1 pre [] w0 = (report, w)"
    and "process r cid w = (Inl e, w')"
  shows "main_loop r 1 (pre @ cid # post) [] w0 =
           main_loop r (length pre + 2) post
             (report @ [\<lparr>Contract_ID = cid, Status = ''ERROR'', Duration = 0, File_Path = None\<rparr>]) w'
     \<and> ((\<forall>j. \<not> should_stop r j) \<longrightarrow>
          (\<exists>rows. fst (main_loop r 1 (pre @ cid # post) [] w0) =
                    report @ \<lparr>Contract_ID = cid, Status = ''ERROR'', Duration = 0,
                               File_Path = None\<rparr> # rows
                  \<and> map Contract_ID rows = post))"
proof -
  let ?err = "\<lparr>Contract_ID = cid, Status = ''ERROR'', Duration = 0 :: real, File_Path = None\<rparr>"
  have pre: "\<forall>j. 1 \<le> j \<and> j < 1 + length pre \<longrightarrow> \<not> should_stop r j"
    using assms(1) by simp
  have here: "\<not> should_stop r (Suc (length pre))"
    using assms(1) by simp
  have eq: "main_loop r 1 (pre @ cid # post) [] w0 =
      main_loop r (length pre + 2) post (report @ [?err]) w'"
    using main_loop_append [OF pre, of "cid # post" "[]" w0] assms(2,3) here
    by (simp add: Let_def)
  have "\<exists>rows. fst (main_loop r 1 (pre @ cid # post) [] w0) = report @ ?err # rows
                  \<and> map Contract_ID rows = post"
    if "\<forall>j. \<not> should_stop r j"
  proof -
    from that have "\<forall>j. length pre + 2 \<le> j \<and> j < length pre + 2 + length post \<longrightarrow>
        \<not> should_stop r j"
      by simp
    from main_loop_all [OF this, of "report @ [?err]" w'] eq show ?thesis
      by simp
  qed
  with eq show ?thesis by blast
qed

theorem runner_error_outcome_witness:
  "fst (main_loop rn_faulty 1 ([''A''] @ ''BAD'' # [''C'']) [] 0) =
     [\<lparr>Contract_ID = ''A'', Status = ''PROCESSED'', Duration = 7, File_Path = Some ''docs.zip''\<rparr>,
      \<lparr>Contract_ID = ''BAD'', Status = ''ERROR'', Duration = 0, File_Path = None\<rparr>,
      \<lparr>Contract_ID = ''C'', Status = ''PROCESSED'', Duration = 7, File_Path = Some ''docs.zip''\<rparr>]"
proof -
  have ns: "\<forall>j. 1 \<le> j \<and> j \<le> Suc (length [''A'']) \<longrightarrow> \<not> should_stop rn_faulty j"
    by (simp add: rn_faulty_def rn_ok_def)
  have p: "main_loop rn_faulty 1 [''A''] [] 0 =
      ([\<lparr>Contract_ID = ''A'', Status = ''PROCESSED'', Duration = 7,
          File_Path = Some ''docs.zip''\<rparr>], 7)"
    by (simp add: rn_faulty_def rn_ok_def)
  have b: "process rn_faulty ''BAD'' 7 = (Inl (Exception ''KeyError''), 8)"
    by (simp add: rn_faulty_def rn_ok_def)
  have c: "main_loop rn_faulty (length [''A''] + 2) [''C'']
      ([\<lparr>Contract_ID = ''A'', Status = ''PROCESSED'', Duration = 7,
          File_Path = Some ''docs.zip''\<rparr>]
        @ [\<lparr>Contract_ID = ''BAD'', Status = ''ERROR'', Duration = 0, File_Path = None\<rparr>]) 8 =
      ([\<lparr>Contract_ID = ''A'', Status = ''PROCESSED'', Duration = 7,
          File_Path = Some ''docs.zip''\<rparr>,
        \<lparr>Contract_ID = ''BAD'', Status = ''ERROR'', Duration = 0, File_Path = None\<rparr>,
        \<lparr>Contract_ID = ''C'', Status = ''PROCESSED'', Duration = 7,
          File_Path = Some ''docs.zip''\<rparr>], 15)"
    by (simp add: rn_faulty_def rn_ok_def)
  from runner_error_outcome [OF ns p b, of "[''C'']"] c show ?thesis
    by simp
qed

text \<open>\<open>save_report\<close> gives the path of the file when the write succeeds.\<close>

lemma save_report_written:
  "to_excel r df (report_file r w) w = (Inr u, w') \<Longrightarrow>
   save_report r df w = (Inr (report_file r w), w')"
  by (simp add: save_report_def)

text \<open>
  Claim C4. For every plan of more than \<open>k\<close> identifiers, \<open>k\<close> at least one, if the
  stop flag is read unset at the top of the first \<open>k\<close> iterations and set at the top of
  the next one, the run produces exactly \<open>k\<close> rows, those of the first \<open>k\<close>
  identifiers, starts no further contract (the world in which the report is saved is
  the one the \<open>k\<close>-th contract left), and calls \<open>save_report\<close> on exactly those rows;
  when the write succeeds the report is saved under the timestamped name.
\<close>

theorem stop_after_k_contracts:
  assumes "k < length ids"
    and "0 < k"
    and "\<forall>j. 1 \<le> j \<and> j \<le> k \<longrightarrow> \<not> should_stop r j"
    and "should_stop r (Suc k)"
    and "fst (login r w0)"
  shows "\<exists>rows w.
     main_run r ids w0 = (rows, Some (fst (save_report r rows w)), snd (save_report r rows w))
     \<and> length rows = k \<and> map Contract_ID rows = take k ids
     \<and> main_loop r 1 (take k ids) [] (snd (login r w0)) = (rows, w)
     \<and> (\<forall>u w'. to_excel r rows (report_file r w) w = (Inr u, w') \<longrightarrow>
           main_run r ids w0 = (rows, Some (Inr (report_file r w)), w'))"
proof -
  obtain w1 where l: "login r w0 = (True, w1)"
    using assms(5) by (cases "login r w0") simp
  have pre: "\<forall>j. 1 \<le> j \<and> j < 1 + length (take k ids) \<longrightarrow> \<not> should_stop r j"
    using assms(1,3) by simp
  obtain rows w where m: "main_loop r 1 (take k ids) [] w1 = (rows, w)"
    by (cases "main_loop r 1 (take k ids) [] w1")
  from main_loop_all [OF pre, of "[]" w1] m have ids: "map Contract_ID rows = take k ids"
    by simp
  then have "length rows = length (take k ids)"
    by (metis length_map)
  with assms(1) have len: "length rows = k" by simp
  have "main_loop r 1 (take k ids @ drop k ids) [] w1 = (rows, w)"
    using main_loop_append [OF pre, of "drop k ids" "[]" w1] m assms(1,4)
    by simp
  then have loop: "main_loop r 1 ids [] w1 = (rows, w)" by simp
  from len assms(2) have ne: "rows \<noteq> []" by auto
  have run: "main_run r ids w0 =
      (rows, Some (fst (save_report r rows w)), snd (save_report r rows w))"
    using l loop ne by (simp add: main_run_def main_finally_def split: prod.splits)
  have "main_run r ids w0 = (rows, Some (Inr (report_file r w)), w')"
    if "to_excel r rows (report_file r w) w = (Inr u, w')" for u w'
    using run save_report_written [OF that] by simp
  moreover have "main_loop r 1 (take k ids) [] (snd (login r w0)) = (rows, w)"
    using m l by simp
  ultimately show ?thesis
    using run len ids by blast
qed

theorem stop_after_k_contracts_witness:
  "\<exists>rows. main_run rn_stop [''A'', ''B'', ''C''] 0 = (rows, Some (Inr ''report.xlsx''), 225)
     \<and> length rows = 2 \<and> map Contract_ID rows = [''A'', ''B'']"
proof -
  have h: "(2::nat) < length [''A'', ''B'', ''C'']" "(0::nat) < 2"
    "\<forall>j. 1 \<le> j \<and> j \<le> 2 \<longrightarrow> \<not> should_stop rn_stop j" "should_stop rn_stop (Suc 2)"
    "fst (login rn_stop 0)"
    by (simp_all add: rn_stop_def rn_ok_def)
  from stop_after_k_contracts [OF h] obtain rows w where
    r: "main_run rn_stop [''A'', ''B'', ''C''] 0 =
         (rows, Some (fst (save_report rn_stop rows w)), snd (save_report rn_stop rows w))"
      "length rows = 2" "map Contract_ID rows = take 2 [''A'', ''B'', ''C'']"
    by blast
  have "main_run rn_stop [''A'', ''B'', ''C''] 0 =
     ([\<lparr>Contract_ID = ''A'', Status = ''PROCESSED'', Duration = 107,
         File_Path = Some ''out/A/docs.zip''\<rparr>,
       \<lparr>Contract_ID = ''B'', Status = ''PROCESSED'', Duration = 107,
         File_Path = Some ''out/B/docs.zip''\<rparr>], Some (Inr ''report.xlsx''), 225)"
    by (simp add: rn_stop_def rn_ok_def main_run_def main_finally_def save_report_def
        process_with_def gw_ok_def pc_defs)
  with r show ?thesis by simp
qed

text \<open>
  A stop requested before the first contract leaves the report empty, and line 239
  then saves nothing.
\<close>

lemma stop_before_first_contract:
  "should_stop r 1 \<Longrightarrow> fst (login r w0) \<Longrightarrow>
   main_run r ids w0 = ([], None, snd (login r w0))"
  by (cases "login r w0") (simp add: main_run_def main_finally_def)

section \<open>The recorded duration\<close>

text \<open>The loop only appends to the report.\<close>

lemma main_loop_extends:
  "\<exists>rows. fst (main_loop r i ids report w) = report @ rows"
proof (induction ids arbitrary: i report w)
  case Nil
  then show ?case by simp
next
  case (Cons cid rest)
  show ?case
  proof (cases "should_stop r i")
    case True
    then show ?thesis by simp
  next
    case False
    obtain res w' where p: "process r cid w = (res, w')"
      by (cases "process r cid w")
    show ?thesis
    proof (cases res)
      case (Inl e)
      let ?row = "\<lparr>Contract_ID = cid, Status = ''ERROR'', Duration = 0 :: real,
                   File_Path = None\<rparr>"
      from Cons.IH [of "Suc i" "report @ [?row]" w'] obtain rows where
        "fst (main_loop r (Suc i) rest (report @ [?row]) w') = (report @ [?row]) @ rows"
        by blast
      with False p Inl show ?thesis by simp
    next
      case (Inr result)
      let ?row = "\<lparr>Contract_ID = cid, Status = Status result,
                   Duration = round_2 r (clock r w' - clock r w), File_Path = File_Path result\<rparr>"
      from Cons.IH [of "Suc i" "report @ [?row]" w'] obtain rows where
        "fst (main_loop r (Suc i) rest (report @ [?row]) w') = (report @ [?row]) @ rows"
        by blast
      with False p Inr show ?thesis by (simp add: Let_def)
    qed
  qed
qed

text \<open>
  Claim C9. For every contract the loop starts, with \<open>process_contract\<close> as the
  processor, the duration recorded in the report row is \<open>round(..., 2)\<close> of the clock
  difference between the world in which the search is about to be attempted and the
  world in which \<open>process_contract\<close> returns, that is the world the return to the
  home page left after the body of the \<open>try\<close> statement ended: the time spent in
  \<open>NAVIGATE_HOME\<close> is included.
\<close>

theorem recorded_duration_includes_navigate_home:
  assumes "process r = process_with g url"
    and "\<not> should_stop r i"
    and "process_contract_try g cid (time_time g w) w = (ended, st, fp, ss, w1)"
  shows "\<exists>row rows.
     fst (main_loop r i (cid # rest) report w) = report @ row # rows
     \<and> Contract_ID row = cid
     \<and> Duration row = round_2 r (clock r (snd (navigate_to_homepage g url w1)) - clock r w)"
proof -
  let ?w2 = "snd (navigate_to_homepage g url w1)"
  let ?res = "\<lparr>Contract_ID = cid,
           Status = (case ended of Raised e \<Rightarrow> ''ERROR_'' @ st | _ \<Rightarrow> st),
           Duration = py_int (time_time g w1 - time_time g w), File_Path = fp\<rparr>"
  let ?row = "\<lparr>Contract_ID = cid, Status = Status ?res,
               Duration = round_2 r (clock r ?w2 - clock r w), File_Path = File_Path ?res\<rparr>"
  have p: "process r cid w = (Inr ?res, ?w2)"
    using process_contract_unfold [OF assms(3), of url] assms(1)
    by (simp add: process_with_def)
  have step: "main_loop r i (cid # rest) report w = main_loop r (Suc i) rest (report @ [?row]) ?w2"
    using assms(2) p by (simp add: Let_def)
  from main_loop_extends [of r "Suc i" rest "report @ [?row]" ?w2] obtain rows where
    "fst (main_loop r (Suc i) rest (report @ [?row]) ?w2) = (report @ [?row]) @ rows"
    by blast
  with step have "fst (main_loop r i (cid # rest) report w) = report @ ?row # rows"
    by simp
  then show ?thesis
    by (intro exI [of _ ?row] exI [of _ rows]) simp
qed

theorem recorded_duration_includes_navigate_home_witness:
  "\<exists>row rows. fst (main_loop rn_ok 1 (''A'' # [''B'']) [] 0) = [] @ row # rows
     \<and> Contract_ID row = ''A'' \<and> Duration row = 107"
proof -
  have p: "process rn_ok = process_with gw_ok ''url''" and s: "\<not> should_stop rn_ok 1"
    by (simp_all add: rn_ok_def)
  have t: "process_contract_try gw_ok ''A'' (time_time gw_ok 0) 0 =
      (Completed, ''PROCESSED'', Some ''out/A/docs.zip'',
       [SEARCH, OPEN, ACCESS_DOCUMENTS, DOWNLOAD], 7)"
    by (simp add: gw_ok_def pc_defs)
  have d: "round_2 rn_ok (clock rn_ok (snd (navigate_to_homepage gw_ok ''url'' 7)) - clock rn_ok 0)
      = 107"
    by (simp add: rn_ok_def gw_ok_def navigate_to_homepage_def)
  from recorded_duration_includes_navigate_home [OF p s t, of "[''B'']" "[]"] d
  show ?thesis by simp
qed

section \<open>The resume tracker\<close>














text \<open>
  The existence check of line 16 stands before the \<open>try\<close> block of line 19: an
  exception it raises is not caught by the function.
\<close>

lemma get_last_contract_id_propagates:
  "get_last_contract_id out_locked = Inl (Exception ''PermissionError'')"
  by (simp add: out_locked_def get_last_contract_id_def)

end
